theory Spec2Isabelle
  imports Complex_Main "HOL-Library.Sublist" "HOL-Library.Word"
begin

section \<open>Python values and the runtime the servers rely on\<close>

text \<open>
  Both servers work on the values that \<^verbatim>\<open>json.loads\<close> produces and build their answers
  as dictionary literals. A dictionary is an association list in insertion order; a
  dictionary obtained from \<^verbatim>\<open>json.loads\<close> holds every key once. A Python \<^verbatim>\<open>str\<close> is an
  Isabelle \<open>string\<close>, one \<open>char\<close> for each character, so the model covers the characters
  below 256. A Python \<^verbatim>\<open>float\<close> is a real number: the only arithmetic in the source is the
  quotient \<^verbatim>\<open>len(alt_text) / 50\<close> compared with \<^verbatim>\<open>1.0\<close>; the non-finite floats that
  \<^verbatim>\<open>json.loads\<close> accepts are not represented.
\<close>

datatype json =
    JNull
  | JBool bool
  | JInt int
  | JFloat real
  | JStr string
  | JArr "json list"
  | JObj "(string \<times> json) list"

text \<open>The exceptions that the modelled code can raise; all are subclasses of \<^verbatim>\<open>Exception\<close>.\<close>

datatype py_exn =
    AttributeError
  | TypeError
  | IndexError
  | ValueError string
  | HTTPError
  | BinasciiError

type_synonym bytes = "8 word list"

record http_response =
  status_error :: bool
  content_type :: "string option"
  content :: bytes

text \<open>
  What the code calls but does not define: the \<^verbatim>\<open>json\<close> module, \<^verbatim>\<open>str()\<close> of a value that is
  not a string and of an exception, \<^verbatim>\<open>httpx\<close> and \<^verbatim>\<open>base64\<close>. They are parameters of the
  model. \<open>http_get\<close> is \<^verbatim>\<open>client.get(url, timeout=10.0)\<close>: \<open>None\<close> is any fault of the
  request (time-out included); \<open>status_error\<close> says whether \<^verbatim>\<open>raise_for_status()\<close> raises;
  \<open>content_type\<close> is the header, when present. \<open>b64decode\<close> is \<open>None\<close> where
  \<^verbatim>\<open>base64.b64decode\<close> raises.
\<close>

record runtime =
  json_loads :: "string \<Rightarrow> json option"
  json_dumps :: "json \<Rightarrow> string"
  py_repr :: "json \<Rightarrow> string"
  exn_str :: "py_exn \<Rightarrow> string"
  http_get :: "string \<Rightarrow> http_response option"
  b64decode :: "string \<Rightarrow> bytes option"
  b64encode :: "bytes \<Rightarrow> string"

definition dict_get :: "(string \<times> json) list \<Rightarrow> string \<Rightarrow> json \<Rightarrow> json" where
  "dict_get d k dflt = (case map_of d k of None \<Rightarrow> dflt | Some v \<Rightarrow> v)"

text \<open>\<^verbatim>\<open>v.get(k, dflt)\<close> on any value: only a dictionary has the method.\<close>

fun py_get :: "json \<Rightarrow> string \<Rightarrow> json \<Rightarrow> py_exn + json" where
  "py_get (JObj d) k dflt = Inr (dict_get d k dflt)"
| "py_get v k dflt = Inl AttributeError"

text \<open>
  \<^verbatim>\<open>str.lower()\<close> on the characters below 256: the ASCII capitals and the Latin-1
  capitals (all of 192..222 but the multiplication sign) move up by 32.
\<close>

definition lower_char :: "char \<Rightarrow> char" where
  "lower_char c =
     (let n = (of_char c :: nat)
      in if (65 \<le> n \<and> n \<le> 90) \<or> (192 \<le> n \<and> n \<le> 222 \<and> n \<noteq> 215)
         then char_of (n + 32) else c)"

definition lower :: "string \<Rightarrow> string" where
  "lower s = map lower_char s"

fun py_lower :: "json \<Rightarrow> py_exn + string" where
  "py_lower (JStr s) = Inr (lower s)"
| "py_lower v = Inl AttributeError"

text \<open>Truth value of a value in a condition, and \<^verbatim>\<open>len\<close>.\<close>

fun truthy :: "json \<Rightarrow> bool" where
  "truthy JNull = False"
| "truthy (JBool b) = b"
| "truthy (JInt i) = (i \<noteq> 0)"
| "truthy (JFloat r) = (r \<noteq> 0)"
| "truthy (JStr s) = (s \<noteq> [])"
| "truthy (JArr xs) = (xs \<noteq> [])"
| "truthy (JObj d) = (d \<noteq> [])"

fun py_len :: "json \<Rightarrow> py_exn + nat" where
  "py_len (JStr s) = Inr (length s)"
| "py_len (JArr xs) = Inr (length xs)"
| "py_len (JObj d) = Inr (length d)"
| "py_len v = Inl TypeError"

text \<open>A value inside an f-string: a string stands for itself, the rest goes through \<^verbatim>\<open>str()\<close>.\<close>

fun fmt :: "runtime \<Rightarrow> json \<Rightarrow> string" where
  "fmt rt (JStr s) = s"
| "fmt rt JNull = ''None''"
| "fmt rt (JBool True) = ''True''"
| "fmt rt (JBool False) = ''False''"
| "fmt rt v = py_repr rt v"

section \<open>The minimal server (simple\_server.py)\<close>

definition tools :: json where
  "tools = JArr [
     JObj [
       (''name'', JStr ''generate_alt_text''),
       (''description'', JStr ''Generate descriptive alt text options for images''),
       (''inputSchema'', JObj [
          (''type'', JStr ''object''),
          (''properties'', JObj [
             (''image_data'', JObj [(''type'', JStr ''string''),
                                    (''description'', JStr ''Image URL or base64 data'')]),
             (''context'', JObj [(''type'', JStr ''object''),
                                 (''description'', JStr ''Page context'')])]),
          (''required'', JArr [JStr ''image_data''])])]]"

definition product_suggestions :: json where
  "product_suggestions = JArr [
     JObj [(''type'', JStr ''brief''),
           (''text'', JStr ''Product image showing key features''),
           (''length'', JInt 35),
           (''confidence'', JFloat 0.85)],
     JObj [(''type'', JStr ''moderate''),
           (''text'', JStr ''Detailed product photo highlighting main functionality and design''),
           (''length'', JInt 65),
           (''confidence'', JFloat 0.90)],
     JObj [(''type'', JStr ''detailed''),
           (''text'', JStr ''High-quality product photograph showcasing design, features, and build quality in professional lighting setup''),
           (''length'', JInt 115),
           (''confidence'', JFloat 0.88)]]"

definition generic_suggestions :: json where
  "generic_suggestions = JArr [
     JObj [(''type'', JStr ''brief''),
           (''text'', JStr ''Descriptive image relevant to page content''),
           (''length'', JInt 42),
           (''confidence'', JFloat 0.80)],
     JObj [(''type'', JStr ''moderate''),
           (''text'', JStr ''Detailed visual content supporting the main page topic and user context''),
           (''length'', JInt 75),
           (''confidence'', JFloat 0.85)],
     JObj [(''type'', JStr ''detailed''),
           (''text'', JStr ''Comprehensive visual description including key elements, composition, and contextual relevance to surrounding content''),
           (''length'', JInt 125),
           (''confidence'', JFloat 0.82)]]"

text \<open>
  \<^verbatim>\<open>SimpleAltTextServer.generate_alt_text\<close>. The four \<^verbatim>\<open>.get\<close> calls come first, in the
  source's order; the condition evaluates \<^verbatim>\<open>page_title.lower()\<close> before it looks at
  \<^verbatim>\<open>page_topic\<close>.
\<close>

definition generate_alt_text :: "json \<Rightarrow> py_exn + json" where
  "generate_alt_text arguments =
     (case py_get arguments ''image_data'' (JStr []) of
        Inl e \<Rightarrow> Inl e
      | Inr image_data \<Rightarrow>
     (case py_get arguments ''context'' (JObj []) of
        Inl e \<Rightarrow> Inl e
      | Inr context \<Rightarrow>
     (case py_get context ''page_title'' (JStr []) of
        Inl e \<Rightarrow> Inl e
      | Inr page_title \<Rightarrow>
     (case py_get context ''page_topic'' (JStr ''general'') of
        Inl e \<Rightarrow> Inl e
      | Inr page_topic \<Rightarrow>
     (case py_lower page_title of
        Inl e \<Rightarrow> Inl e
      | Inr title \<Rightarrow>
          Inr (JObj [
            (''success'', JBool True),
            (''alt_suggestions'',
               (if sublist ''product'' title \<or> page_topic = JStr ''ecommerce''
                then product_suggestions else generic_suggestions)),
            (''accessibility_analysis'', JObj [
               (''is_decorative'', JBool False),
               (''contains_text'', JBool False),
               (''complexity_level'', JStr ''moderate''),
               (''recommended_approach'', JStr ''descriptive'')]),
            (''context_used'', context)]))))))"

text \<open>
  \<^verbatim>\<open>SimpleAltTextServer.handle_message\<close>. A \<^verbatim>\<open>tools/call\<close> for another tool leaves the
  \<^verbatim>\<open>if\<close> chain and reaches the default error response, like an unknown method.
\<close>

definition method_not_found :: "runtime \<Rightarrow> json \<Rightarrow> json \<Rightarrow> json" where
  "method_not_found rt msg_id method =
     JObj [(''jsonrpc'', JStr ''2.0''),
           (''id'', msg_id),
           (''error'', JObj [
              (''code'', JInt (- 32601)),
              (''message'', JStr (''Method not found: '' @ fmt rt method))])]"

definition handle_message :: "runtime \<Rightarrow> json \<Rightarrow> py_exn + json" where
  "handle_message rt message =
     (case py_get message ''method'' JNull of
        Inl e \<Rightarrow> Inl e
      | Inr method \<Rightarrow>
     (case py_get message ''id'' JNull of
        Inl e \<Rightarrow> Inl e
      | Inr msg_id \<Rightarrow>
        if method = JStr ''initialize'' then
          Inr (JObj [
            (''jsonrpc'', JStr ''2.0''),
            (''id'', msg_id),
            (''result'', JObj [
               (''protocolVersion'', JStr ''2024-11-05''),
               (''capabilities'', JObj [(''tools'', JObj [(''listChanged'', JBool False)])]),
               (''serverInfo'', JObj [(''name'', JStr ''alt-text-generator''),
                                      (''version'', JStr ''1.0.0'')])])])
        else if method = JStr ''tools/list'' then
          Inr (JObj [
            (''jsonrpc'', JStr ''2.0''),
            (''id'', msg_id),
            (''result'', JObj [(''tools'', tools)])])
        else if method = JStr ''tools/call'' then
          (case py_get message ''params'' (JObj []) of
             Inl e \<Rightarrow> Inl e
           | Inr params \<Rightarrow>
          (case py_get params ''name'' JNull of
             Inl e \<Rightarrow> Inl e
           | Inr tool_name \<Rightarrow>
          (case py_get params ''arguments'' (JObj []) of
             Inl e \<Rightarrow> Inl e
           | Inr arguments \<Rightarrow>
             if tool_name = JStr ''generate_alt_text'' then
               (case generate_alt_text arguments of
                  Inl e \<Rightarrow> Inl e
                | Inr result \<Rightarrow>
                    Inr (JObj [
                      (''jsonrpc'', JStr ''2.0''),
                      (''id'', msg_id),
                      (''result'', JObj [
                         (''content'', JArr [
                            JObj [(''type'', JStr ''text''),
                                  (''text'', JStr (json_dumps rt result))]])])]))
             else Inr (method_not_found rt msg_id method))))
        else Inr (method_not_found rt msg_id method)))"

text \<open>
  \<^verbatim>\<open>main\<close>: the read loop over the lines that \<^verbatim>\<open>input\<close> delivers, as the list of what it
  emits. \<open>Print\<close> is a line on standard output, the other two are \<^verbatim>\<open>logger.error\<close>
  calls. The end of the list is \<^verbatim>\<open>EOFError\<close>, which ends the loop.
\<close>

datatype event = Print string | LogInvalidJSON | LogError py_exn

definition is_space :: "char \<Rightarrow> bool" where
  "is_space c =
     (let n = (of_char c :: nat)
      in (9 \<le> n \<and> n \<le> 13) \<or> (28 \<le> n \<and> n \<le> 32) \<or> n = 133 \<or> n = 160)"

text \<open>\<^verbatim>\<open>line.strip()\<close> removes the white space at both ends.\<close>

definition strip :: "string \<Rightarrow> string" where
  "strip s = rev (dropWhile is_space (rev (dropWhile is_space s)))"

fun main :: "runtime \<Rightarrow> string list \<Rightarrow> event list" where
  "main rt [] = []"
| "main rt (line # rest) =
     (if strip line = [] then main rt rest
      else (case json_loads rt line of
              None \<Rightarrow> LogInvalidJSON # main rt rest
            | Some message \<Rightarrow>
                (case handle_message rt message of
                   Inl e \<Rightarrow> LogError e # main rt rest
                 | Inr response \<Rightarrow> Print (json_dumps rt response) # main rt rest)))"

section \<open>The full server (server.py)\<close>

definition supported_formats :: "string list" where
  "supported_formats = [''jpeg'', ''jpg'', ''png'', ''gif'', ''webp'']"

text \<open>
  \<^verbatim>\<open>AltTextGenerator._process_image_url\<close> (the leading underscore of the private methods is
  dropped). Everything is inside the \<^verbatim>\<open>try\<close>; the handler returns \<^verbatim>\<open>None\<close>.
\<close>

definition process_image_url_try :: "runtime \<Rightarrow> string \<Rightarrow> py_exn + string option" where
  "process_image_url_try rt url =
     (case http_get rt url of
        None \<Rightarrow> Inl HTTPError
      | Some response \<Rightarrow>
          if status_error response then Inl HTTPError
          else
            (let ctype = (case content_type response of None \<Rightarrow> [] | Some c \<Rightarrow> c)
             in if \<not> list_ex (\<lambda>f. sublist f ctype) supported_formats then Inr None
                else if length (content response) > 5 * 1024 * 1024 then Inr None
                else Inr (Some (b64encode rt (content response)))))"

definition process_image_url :: "runtime \<Rightarrow> string \<Rightarrow> string option" where
  "process_image_url rt url =
     (case process_image_url_try rt url of Inl e \<Rightarrow> None | Inr r \<Rightarrow> r)"

text \<open>\<^verbatim>\<open>s.split(sep)\<close> for a separator of one character.\<close>

fun split_char :: "char \<Rightarrow> string \<Rightarrow> string list" where
  "split_char sep [] = [[]]"
| "split_char sep (c # cs) =
     (if c = sep then [] # split_char sep cs
      else (case split_char sep cs of
              [] \<Rightarrow> [[c]]
            | p # ps \<Rightarrow> (c # p) # ps))"

text \<open>
  \<^verbatim>\<open>AltTextGenerator._process_base64_image\<close>. Its first statement removes the prefix of a
  data URL; \<^verbatim>\<open>split(',')[1]\<close> raises when the text has no comma.
\<close>

definition strip_data_url :: "string \<Rightarrow> py_exn + string" where
  "strip_data_url base64_data =
     (if prefix ''data:'' base64_data
      then (let parts = split_char (CHR '','') base64_data
            in if 1 < length parts then Inr (parts ! 1) else Inl IndexError)
      else Inr base64_data)"

definition process_base64_image_try :: "runtime \<Rightarrow> string \<Rightarrow> py_exn + string option" where
  "process_base64_image_try rt base64_data =
     (case strip_data_url base64_data of
        Inl e \<Rightarrow> Inl e
      | Inr data \<Rightarrow>
          (case b64decode rt data of
             None \<Rightarrow> Inl BinasciiError
           | Some image_bytes \<Rightarrow>
               if length image_bytes > 5 * 1024 * 1024 then Inr None
               else Inr (Some data)))"

definition process_base64_image :: "runtime \<Rightarrow> string \<Rightarrow> string option" where
  "process_base64_image rt base64_data =
     (case process_base64_image_try rt base64_data of Inl e \<Rightarrow> None | Inr r \<Rightarrow> r)"

text \<open>
  \<^verbatim>\<open>v[:200]\<close>: strings and lists can be sliced; a number is not subscriptable and a
  dictionary has no slice key (\<^verbatim>\<open>TypeError\<close>, \<^verbatim>\<open>KeyError\<close> from Python 3.12 on).
\<close>

fun py_slice :: "nat \<Rightarrow> json \<Rightarrow> py_exn + json" where
  "py_slice n (JStr s) = Inr (JStr (take n s))"
| "py_slice n (JArr xs) = Inr (JArr (take n xs))"
| "py_slice n v = Inl TypeError"

fun join :: "string \<Rightarrow> string list \<Rightarrow> string" where
  "join sep [] = []"
| "join sep [p] = p"
| "join sep (p # ps) = p @ sep @ join sep ps"

text \<open>
  \<^verbatim>\<open>AltTextGenerator._build_context_prompt\<close>. The first \<^verbatim>\<open>context.get\<close> raises when the
  context is not a dictionary; after it only the slice can raise.
\<close>

definition build_context_prompt :: "runtime \<Rightarrow> json \<Rightarrow> py_exn + string" where
  "build_context_prompt rt context =
     (case context of
        JObj d \<Rightarrow>
          (let title = (if truthy (dict_get d ''page_title'' JNull)
                        then [''Page title: '' @ fmt rt (dict_get d ''page_title'' JNull)]
                        else [])
           in case (if truthy (dict_get d ''surrounding_text'' JNull)
                    then (case py_slice 200 (dict_get d ''surrounding_text'' JNull) of
                            Inl e \<Rightarrow> Inl e
                          | Inr v \<Rightarrow> Inr [''Surrounding text: '' @ fmt rt v @ ''...''])
                    else Inr []) of
                Inl e \<Rightarrow> Inl e
              | Inr surrounding \<Rightarrow>
                  (let filename = (if truthy (dict_get d ''image_filename'' JNull)
                                   then [''Image filename: ''
                                           @ fmt rt (dict_get d ''image_filename'' JNull)]
                                   else []);
                       topic = (if truthy (dict_get d ''page_topic'' JNull)
                                then [''Page topic: '' @ fmt rt (dict_get d ''page_topic'' JNull)]
                                else []);
                       prompt_parts = title @ surrounding @ filename @ topic
                   in Inr (if prompt_parts \<noteq> [] then join [CHR 0x0A] prompt_parts
                           else ''No additional context available.'')))
      | _ \<Rightarrow> Inl AttributeError)"

definition rich_suggestions :: json where
  "rich_suggestions = JArr [
     JObj [(''type'', JStr ''brief''),
           (''text'', JStr ''Descriptive image relevant to page content''),
           (''length'', JInt 42),
           (''confidence'', JFloat 0.85)],
     JObj [(''type'', JStr ''moderate''),
           (''text'', JStr ''Detailed description based on visual analysis and page context''),
           (''length'', JInt 68),
           (''confidence'', JFloat 0.90)],
     JObj [(''type'', JStr ''detailed''),
           (''text'', JStr ''Comprehensive description including key visual elements, colors, composition, and contextual relevance to surrounding content''),
           (''length'', JInt 134),
           (''confidence'', JFloat 0.88)]]"

definition options_fallback :: json where
  "options_fallback = JArr [
     JObj [(''type'', JStr ''fallback''),
           (''text'', JStr ''Image description unavailable''),
           (''length'', JInt 32),
           (''confidence'', JFloat 0.5)]]"

text \<open>
  \<^verbatim>\<open>AltTextGenerator._generate_alt_text_options\<close>. The prompt is built before the \<^verbatim>\<open>try\<close>,
  so its exception leaves the method; the \<^verbatim>\<open>try\<close> holds the list literal only.
\<close>

definition generate_alt_text_options :: "runtime \<Rightarrow> string \<Rightarrow> json \<Rightarrow> py_exn + json" where
  "generate_alt_text_options rt image_data context =
     (case build_context_prompt rt context of
        Inl e \<Rightarrow> Inl e
      | Inr context_prompt \<Rightarrow>
          (case (Inr rich_suggestions :: py_exn + json) of
             Inl e \<Rightarrow> Inr options_fallback
           | Inr suggestions \<Rightarrow> Inr suggestions))"

definition analyze_accessibility_context :: "json \<Rightarrow> json \<Rightarrow> (string \<times> json) list" where
  "analyze_accessibility_context image_data context = [
     (''is_decorative'', JBool False),
     (''contains_text'', JBool False),
     (''complexity_level'', JStr ''moderate''),
     (''recommended_approach'', JStr ''descriptive''),
     (''wcag_considerations'', JArr [
        JStr ''Ensure description conveys essential information'',
        JStr ''Consider if image contains important text that should be transcribed'',
        JStr ''Evaluate if image is purely decorative''])]"

definition create_error_response :: "string \<Rightarrow> json" where
  "create_error_response error_message =
     JObj [(''success'', JBool False),
           (''error'', JStr error_message),
           (''alt_suggestions'', JArr [
              JObj [(''type'', JStr ''fallback''),
                    (''text'', JStr ''Image description unavailable - please add manual alt text''),
                    (''length'', JInt 58),
                    (''confidence'', JFloat 0.0)]])]"

text \<open>
  The normalisation step of \<^verbatim>\<open>analyze_image\<close>: \<^verbatim>\<open>startswith\<close> exists on strings only.
\<close>

definition image_input_of :: "runtime \<Rightarrow> json \<Rightarrow> py_exn + string option" where
  "image_input_of rt image_data =
     (case image_data of
        JStr s \<Rightarrow> Inr (if prefix ''http'' s then process_image_url rt s
                         else process_base64_image rt s)
      | _ \<Rightarrow> Inl AttributeError)"

text \<open>\<^verbatim>\<open>AltTextGenerator.analyze_image\<close>: the \<^verbatim>\<open>try\<close> block, then the method with its handler.\<close>

definition analyze_image_try :: "runtime \<Rightarrow> json \<Rightarrow> json \<Rightarrow> py_exn + json" where
  "analyze_image_try rt image_data context =
     (case image_input_of rt image_data of
        Inl e \<Rightarrow> Inl e
      | Inr image_input \<Rightarrow>
          (case image_input of
             None \<Rightarrow> Inr (create_error_response ''Invalid image format or size'')
           | Some inp \<Rightarrow>
               if inp = [] then Inr (create_error_response ''Invalid image format or size'')
               else
                 (case generate_alt_text_options rt inp context of
                    Inl e \<Rightarrow> Inl e
                  | Inr alt_suggestions \<Rightarrow>
                      Inr (JObj [
                        (''success'', JBool True),
                        (''alt_suggestions'', alt_suggestions),
                        (''accessibility_analysis'',
                           JObj (analyze_accessibility_context (JStr inp) context)),
                        (''context_used'', context)]))))"

definition analyze_image :: "runtime \<Rightarrow> json \<Rightarrow> json \<Rightarrow> json" where
  "analyze_image rt image_data context =
     (case analyze_image_try rt image_data context of
        Inl e \<Rightarrow> create_error_response (''Analysis failed: '' @ exn_str rt e)
      | Inr result \<Rightarrow> result)"

text \<open>
  \<^verbatim>\<open>handle_call_tool\<close>, with its two inline branches as definitions of their own. The
  handler receives the tool name and the arguments dictionary from the MCP framework.
\<close>

datatype text_content = TextContent (tc_type: string) (tc_text: string)

fun dict_set :: "(string \<times> json) list \<Rightarrow> string \<Rightarrow> json \<Rightarrow> (string \<times> json) list" where
  "dict_set [] k v = [(k, v)]"
| "dict_set ((k', v') # d) k v =
     (if k' = k then (k, v) # d else (k', v') # dict_set d k v)"

text \<open>The branch \<^verbatim>\<open>name == "analyze_image_context"\<close>: the dictionary that is serialised.\<close>

definition analyze_image_context :: "(string \<times> json) list \<Rightarrow> py_exn + json" where
  "analyze_image_context arguments =
     (let image_data = dict_get arguments ''image_data'' (JStr []);
          current_alt = dict_get arguments ''current_alt'' (JStr []);
          context = dict_get arguments ''context'' (JObj []);
          analysis = analyze_accessibility_context image_data context
      in case (if truthy current_alt then py_len current_alt else Inr 0) of
           Inl e \<Rightarrow> Inl e
         | Inr n \<Rightarrow>
             Inr (JObj (dict_set analysis ''current_alt_evaluation'' (JObj [
               (''text'', current_alt),
               (''length'', JInt (int n)),
               (''quality_score'', JFloat (if truthy current_alt then 0.5 else 0.0)),
               (''recommendations'', JArr [
                  JStr (if truthy current_alt then ''Consider more descriptive language''
                        else ''Add descriptive alt text''),
                  JStr ''Ensure essential information is conveyed'',
                  JStr ''Keep under 125 characters when possible''])]))))"

text \<open>
  The branch \<^verbatim>\<open>name == "validate_alt_text_quality"\<close>. \<^verbatim>\<open>len(alt_text)\<close> is evaluated for
  the \<^verbatim>\<open>length\<close> entry before anything else; the two lists are filled afterwards.
\<close>

definition validate_alt_text_quality :: "(string \<times> json) list \<Rightarrow> py_exn + json" where
  "validate_alt_text_quality arguments =
     (let alt_text = dict_get arguments ''alt_text'' (JStr []);
          image_data = dict_get arguments ''image_data'' (JStr []);
          context = dict_get arguments ''context'' (JObj [])
      in case py_len alt_text of
           Inl e \<Rightarrow> Inl e
         | Inr n \<Rightarrow>
             (let quality_score = (if truthy alt_text then min 1.0 (real n / 50) else 0.0);
                  issues = (if \<not> truthy alt_text then [JStr ''Missing alt text'']
                            else if n < 10 then [JStr ''Alt text too brief'']
                            else if n > 125 then [JStr ''Alt text may be too long'']
                            else []);
                  suggestions = (if \<not> truthy alt_text then [JStr ''Add descriptive alt text'']
                                 else if n < 10 then [JStr ''Provide more descriptive detail'']
                                 else if n > 125
                                   then [JStr ''Consider condensing to essential information'']
                                 else [])
              in Inr (JObj [
                   (''alt_text'', alt_text),
                   (''length'', JInt (int n)),
                   (''quality_score'', JFloat quality_score),
                   (''issues'', JArr issues),
                   (''suggestions'', JArr suggestions)])))"

definition handle_call_tool ::
  "runtime \<Rightarrow> string \<Rightarrow> (string \<times> json) list \<Rightarrow> py_exn + text_content list" where
  "handle_call_tool rt name arguments =
     (if name = ''generate_alt_text'' then
        (let image_data = dict_get arguments ''image_data'' (JStr []);
             context = dict_get arguments ''context'' (JObj []);
             result = analyze_image rt image_data context
         in Inr [TextContent ''text'' (json_dumps rt result)])
      else if name = ''analyze_image_context'' then
        (case analyze_image_context arguments of
           Inl e \<Rightarrow> Inl e
         | Inr analysis \<Rightarrow> Inr [TextContent ''text'' (json_dumps rt analysis)])
      else if name = ''validate_alt_text_quality'' then
        (case validate_alt_text_quality arguments of
           Inl e \<Rightarrow> Inl e
         | Inr quality_analysis \<Rightarrow> Inr [TextContent ''text'' (json_dumps rt quality_analysis)])
      else Inl (ValueError (''Unknown tool: '' @ name)))"

section \<open>Reading the answers\<close>

text \<open>Field access on the dictionaries the handlers return.\<close>

fun field :: "string \<Rightarrow> json \<Rightarrow> json option" where
  "field k (JObj d) = map_of d k"
| "field k v = None"

fun items :: "json \<Rightarrow> json list" where
  "items (JArr xs) = xs"
| "items v = []"




text \<open>Whether a suggestion's \<^verbatim>\<open>length\<close> entry is the number of characters of its text.\<close>

definition length_matches :: "json \<Rightarrow> bool" where
  "length_matches suggestion =
     (case (field ''text'' suggestion, field ''length'' suggestion) of
        (Some (JStr t), Some (JInt n)) \<Rightarrow> n = int (length t)
      | _ \<Rightarrow> False)"

text \<open>
  A runtime for evaluating the model on examples. Its \<open>json_loads\<close> knows two lines, its
  \<open>b64decode\<close> one payload, its \<open>http_get\<close> one address; the serialisers return fixed texts.
\<close>

definition example_runtime :: runtime where
  "example_runtime = \<lparr>
     json_loads = (\<lambda>line. if line = ''{}'' then Some (JObj [])
                          else if line = ''[]'' then Some (JArr []) else None),
     json_dumps = (\<lambda>v. ''json''),
     py_repr = (\<lambda>v. ''repr''),
     exn_str = (\<lambda>e. ''exception''),
     http_get = (\<lambda>url. if url = ''https://x/y.txt''
                         then Some \<lparr>status_error = False, content_type = Some ''text/html'',
                                     content = [104, 105]\<rparr>
                         else None),
     b64decode = (\<lambda>s. if s = ''aGk='' then Some [104, 105] else None),
     b64encode = (\<lambda>b. ''aGk='')\<rparr>"

section \<open>Properties of the full server's quality check\<close>

lemma handle_call_tool_validate:
  "handle_call_tool rt ''validate_alt_text_quality'' arguments =
     (case validate_alt_text_quality arguments of
        Inl e \<Rightarrow> Inl e
      | Inr qa \<Rightarrow> Inr [TextContent ''text'' (json_dumps rt qa)])"
  by (simp add: handle_call_tool_def)

lemma validate_alt_text_quality_str:
  assumes "dict_get arguments ''alt_text'' (JStr []) = JStr s"
  shows "validate_alt_text_quality arguments =
     Inr (JObj [
       (''alt_text'', JStr s),
       (''length'', JInt (int (length s))),
       (''quality_score'', JFloat (if s \<noteq> [] then min 1.0 (real (length s) / 50) else 0.0)),
       (''issues'', JArr
          (if s = [] then [JStr ''Missing alt text'']
           else if length s < 10 then [JStr ''Alt text too brief'']
           else if length s > 125 then [JStr ''Alt text may be too long'']
           else [])),
       (''suggestions'', JArr
          (if s = [] then [JStr ''Add descriptive alt text'']
           else if length s < 10 then [JStr ''Provide more descriptive detail'']
           else if length s > 125 then [JStr ''Consider condensing to essential information'']
           else []))])"
  using assms by (simp add: validate_alt_text_quality_def Let_def)

text \<open>
  C2. For an \<^verbatim>\<open>alt_text\<close> argument that is a string (the empty string when the key is
  missing), the \<^verbatim>\<open>validate_alt_text_quality\<close> handler returns one text content whose
  dictionary has \<^verbatim>\<open>quality_score\<close> equal to \<open>min 1.0 (length / 50)\<close> when the string is not
  empty and \<open>0.0\<close> when it is.
\<close>

theorem quality_score_formula:
  assumes "dict_get arguments ''alt_text'' (JStr []) = JStr alt_text"
  shows "\<exists>qa. validate_alt_text_quality arguments = Inr qa
              \<and> handle_call_tool rt ''validate_alt_text_quality'' arguments =
                 Inr [TextContent ''text'' (json_dumps rt qa)]
              \<and> field ''quality_score'' qa =
                 Some (JFloat (if alt_text \<noteq> []
                               then min 1.0 (real (length alt_text) / 50) else 0.0))"
  by (simp add: handle_call_tool_validate validate_alt_text_quality_str [OF assms])

theorem quality_score_formula_witness:
  "dict_get [(''alt_text'', JStr ''A red bicycle''), (''image_data'', JStr ''x'')]
     ''alt_text'' (JStr []) = JStr ''A red bicycle''
   \<and> (\<exists>qa. validate_alt_text_quality
               [(''alt_text'', JStr ''A red bicycle''), (''image_data'', JStr ''x'')] = Inr qa
          \<and> handle_call_tool example_runtime ''validate_alt_text_quality''
               [(''alt_text'', JStr ''A red bicycle''), (''image_data'', JStr ''x'')] =
             Inr [TextContent ''text'' (json_dumps example_runtime qa)]
          \<and> field ''quality_score'' qa = Some (JFloat (13 / 50)))"
proof -
  have h: "dict_get [(''alt_text'', JStr ''A red bicycle''), (''image_data'', JStr ''x'')]
             ''alt_text'' (JStr []) = JStr ''A red bicycle''"
    by (simp add: dict_get_def)
  show ?thesis
    using h quality_score_formula [OF h, of example_runtime] by simp
qed

text \<open>
  C4. For an \<^verbatim>\<open>alt_text\<close> argument that is a string, the \<^verbatim>\<open>issues\<close> and \<^verbatim>\<open>suggestions\<close>
  lists of the \<^verbatim>\<open>validate_alt_text_quality\<close> handler follow one chain of exclusive cases:
  empty, shorter than 10, longer than 125, and otherwise both lists are empty.
\<close>

theorem quality_issue_thresholds:
  assumes "dict_get arguments ''alt_text'' (JStr []) = JStr alt_text"
  shows "\<exists>qa. validate_alt_text_quality arguments = Inr qa
              \<and> handle_call_tool rt ''validate_alt_text_quality'' arguments =
                 Inr [TextContent ''text'' (json_dumps rt qa)]
              \<and> field ''issues'' qa = Some (JArr
                   (if alt_text = [] then [JStr ''Missing alt text'']
                    else if length alt_text < 10 then [JStr ''Alt text too brief'']
                    else if length alt_text > 125 then [JStr ''Alt text may be too long'']
                    else []))
              \<and> field ''suggestions'' qa = Some (JArr
                   (if alt_text = [] then [JStr ''Add descriptive alt text'']
                    else if length alt_text < 10 then [JStr ''Provide more descriptive detail'']
                    else if length alt_text > 125
                      then [JStr ''Consider condensing to essential information'']
                    else []))"
  by (simp add: handle_call_tool_validate validate_alt_text_quality_str [OF assms])

theorem quality_issue_thresholds_witness:
  "dict_get [(''alt_text'', JStr ''Hi'')] ''alt_text'' (JStr []) = JStr ''Hi''
   \<and> (\<exists>qa. validate_alt_text_quality [(''alt_text'', JStr ''Hi'')] = Inr qa
          \<and> handle_call_tool example_runtime ''validate_alt_text_quality''
               [(''alt_text'', JStr ''Hi'')] =
             Inr [TextContent ''text'' (json_dumps example_runtime qa)]
          \<and> field ''issues'' qa = Some (JArr [JStr ''Alt text too brief''])
          \<and> field ''suggestions'' qa = Some (JArr [JStr ''Provide more descriptive detail'']))"
proof -
  have h: "dict_get [(''alt_text'', JStr ''Hi'')] ''alt_text'' (JStr []) = JStr ''Hi''"
    by (simp add: dict_get_def)
  show ?thesis
    using h quality_issue_thresholds [OF h, of example_runtime] by simp
qed

lemma handle_call_tool_context:
  "handle_call_tool rt ''analyze_image_context'' arguments =
     (case analyze_image_context arguments of
        Inl e \<Rightarrow> Inl e
      | Inr analysis \<Rightarrow> Inr [TextContent ''text'' (json_dumps rt analysis)])"
  by (simp add: handle_call_tool_def)

lemma analyze_image_context_str:
  assumes "dict_get arguments ''current_alt'' (JStr []) = JStr s"
  shows "analyze_image_context arguments =
     Inr (JObj [
       (''is_decorative'', JBool False),
       (''contains_text'', JBool False),
       (''complexity_level'', JStr ''moderate''),
       (''recommended_approach'', JStr ''descriptive''),
       (''wcag_considerations'', JArr [
          JStr ''Ensure description conveys essential information'',
          JStr ''Consider if image contains important text that should be transcribed'',
          JStr ''Evaluate if image is purely decorative'']),
       (''current_alt_evaluation'', JObj [
          (''text'', JStr s),
          (''length'', JInt (int (length s))),
          (''quality_score'', JFloat (if s \<noteq> [] then 0.5 else 0.0)),
          (''recommendations'', JArr [
             JStr (if s \<noteq> [] then ''Consider more descriptive language''
                   else ''Add descriptive alt text''),
             JStr ''Ensure essential information is conveyed'',
             JStr ''Keep under 125 characters when possible''])])])"
  using assms
  by (simp add: analyze_image_context_def analyze_accessibility_context_def Let_def)

text \<open>
  C8. For a \<^verbatim>\<open>current_alt\<close> argument that is a string (the empty string when the key is
  missing), the \<^verbatim>\<open>analyze_image_context\<close> handler returns one text content whose dictionary
  has a \<^verbatim>\<open>current_alt_evaluation\<close> block with the length of the string, the score 0.5 for
  a non-empty string and 0.0 otherwise, and a recommendations list that starts with the
  entry chosen by the same test.
\<close>

theorem current_alt_evaluation_block:
  assumes "dict_get arguments ''current_alt'' (JStr []) = JStr current_alt"
  shows "\<exists>analysis block rest.
           analyze_image_context arguments = Inr analysis
         \<and> handle_call_tool rt ''analyze_image_context'' arguments =
             Inr [TextContent ''text'' (json_dumps rt analysis)]
         \<and> field ''current_alt_evaluation'' analysis = Some block
         \<and> field ''length'' block = Some (JInt (int (length current_alt)))
         \<and> field ''quality_score'' block =
             Some (JFloat (if current_alt \<noteq> [] then 0.5 else 0.0))
         \<and> field ''recommendations'' block =
             Some (JArr (JStr (if current_alt \<noteq> [] then ''Consider more descriptive language''
                               else ''Add descriptive alt text'') # rest))"
  by (simp add: handle_call_tool_context analyze_image_context_str [OF assms])

theorem current_alt_evaluation_block_witness:
  "dict_get [(''image_data'', JStr ''aGk=''), (''current_alt'', JStr ''logo'')]
     ''current_alt'' (JStr []) = JStr ''logo''
   \<and> (\<exists>analysis block rest.
           analyze_image_context [(''image_data'', JStr ''aGk=''), (''current_alt'', JStr ''logo'')]
             = Inr analysis
         \<and> handle_call_tool example_runtime ''analyze_image_context''
               [(''image_data'', JStr ''aGk=''), (''current_alt'', JStr ''logo'')] =
             Inr [TextContent ''text'' (json_dumps example_runtime analysis)]
         \<and> field ''current_alt_evaluation'' analysis = Some block
         \<and> field ''length'' block = Some (JInt 4)
         \<and> field ''quality_score'' block = Some (JFloat (1 / 2))
         \<and> field ''recommendations'' block =
             Some (JArr (JStr ''Consider more descriptive language'' # rest)))"
proof -
  have h: "dict_get [(''image_data'', JStr ''aGk=''), (''current_alt'', JStr ''logo'')]
             ''current_alt'' (JStr []) = JStr ''logo''"
    by (simp add: dict_get_def)
  show ?thesis
    using h current_alt_evaluation_block [OF h, of example_runtime] by simp
qed

section \<open>Properties of the minimal server's dispatch\<close>

lemma generate_alt_text_well_typed:
  assumes "dict_get arguments ''context'' (JObj []) = JObj ctx"
      and "dict_get ctx ''page_title'' (JStr []) = JStr title"
  shows "generate_alt_text (JObj arguments) =
     Inr (JObj [
       (''success'', JBool True),
       (''alt_suggestions'',
          (if sublist ''product'' (lower title)
              \<or> dict_get ctx ''page_topic'' (JStr ''general'') = JStr ''ecommerce''
           then product_suggestions else generic_suggestions)),
       (''accessibility_analysis'', JObj [
          (''is_decorative'', JBool False),
          (''contains_text'', JBool False),
          (''complexity_level'', JStr ''moderate''),
          (''recommended_approach'', JStr ''descriptive'')]),
       (''context_used'', JObj ctx)])"
  using assms by (simp add: generate_alt_text_def)









text \<open>
  C6. A request with an id whose method is a string other than \<^verbatim>\<open>initialize\<close>,
  \<^verbatim>\<open>tools/list\<close> and \<^verbatim>\<open>tools/call\<close> gets the error response with code -32601, the same
  id, and a message that ends with the method name.
\<close>

theorem unknown_method_error:
  assumes "map_of message ''method'' = Some (JStr m)"
      and "m \<noteq> ''initialize''" and "m \<noteq> ''tools/list''" and "m \<noteq> ''tools/call''"
      and "map_of message ''id'' = Some i"
  shows "handle_message rt (JObj message) =
           Inr (JObj [(''jsonrpc'', JStr ''2.0''),
                      (''id'', i),
                      (''error'', JObj [(''code'', JInt (- 32601)),
                                        (''message'', JStr (''Method not found: '' @ m))])])
         \<and> sublist m (''Method not found: '' @ m)"
proof -
  have "sublist m (''Method not found: '' @ m)"
    by (rule sublist_append_leftI)
  with assms show ?thesis
    by (simp add: handle_message_def method_not_found_def dict_get_def)
qed

theorem unknown_method_error_witness:
  "map_of [(''id'', JInt 7), (''method'', JStr ''bogus'')] ''method'' = Some (JStr ''bogus'')
   \<and> ''bogus'' \<noteq> ''initialize'' \<and> ''bogus'' \<noteq> ''tools/list'' \<and> ''bogus'' \<noteq> ''tools/call''
   \<and> map_of [(''id'', JInt 7), (''method'', JStr ''bogus'')] ''id'' = Some (JInt 7)
   \<and> handle_message example_runtime (JObj [(''id'', JInt 7), (''method'', JStr ''bogus'')]) =
           Inr (JObj [(''jsonrpc'', JStr ''2.0''),
                      (''id'', JInt 7),
                      (''error'', JObj [(''code'', JInt (- 32601)),
                                        (''message'', JStr ''Method not found: bogus'')])])"
  using unknown_method_error
    [of "[(''id'', JInt 7), (''method'', JStr ''bogus'')]" "''bogus''" "JInt 7" example_runtime]
  by simp











section \<open>Properties of the full server's image analysis\<close>

lemma process_image_url_fault:
  "http_get rt url = None \<Longrightarrow> process_image_url rt url = None"
  by (simp add: process_image_url_def process_image_url_try_def)

lemma process_image_url_rejects:
  assumes "http_get rt url = Some r"
      and "status_error r
           \<or> \<not> list_ex (\<lambda>f. sublist f (case content_type r of None \<Rightarrow> [] | Some c \<Rightarrow> c))
                  supported_formats
           \<or> 5 * 1024 * 1024 < length (content r)"
  shows "process_image_url rt url = None"
  using assms by (auto simp: process_image_url_def process_image_url_try_def Let_def)

lemma process_base64_image_split_fault:
  "strip_data_url data = Inl e \<Longrightarrow> process_base64_image rt data = None"
  by (simp add: process_base64_image_def process_base64_image_try_def)

lemma process_base64_image_decode_fault:
  "strip_data_url data = Inr p \<Longrightarrow> b64decode rt p = None \<Longrightarrow> process_base64_image rt data = None"
  by (simp add: process_base64_image_def process_base64_image_try_def)

lemma process_base64_image_too_long:
  "strip_data_url data = Inr p \<Longrightarrow> b64decode rt p = Some bs \<Longrightarrow> 5 * 1024 * 1024 < length bs
   \<Longrightarrow> process_base64_image rt data = None"
  by (simp add: process_base64_image_def process_base64_image_try_def)

lemma analyze_image_no_input:
  "image_input_of rt image_data = Inr None \<Longrightarrow>
   analyze_image rt image_data context = create_error_response ''Invalid image format or size''"
  by (simp add: analyze_image_def analyze_image_try_def)

lemma analyze_image_caught:
  "analyze_image_try rt image_data context = Inl e \<Longrightarrow>
   analyze_image rt image_data context = create_error_response (''Analysis failed: '' @ exn_str rt e)"
  by (simp add: analyze_image_def)

lemma error_envelope:
  "field ''success'' (create_error_response msg) = Some (JBool False)
   \<and> field ''alt_suggestions'' (create_error_response msg) =
       Some (JArr [JObj [(''type'', JStr ''fallback''),
                         (''text'', JStr ''Image description unavailable - please add manual alt text''),
                         (''length'', JInt 58),
                         (''confidence'', JFloat 0.0)]])"
  by (simp add: create_error_response_def)

text \<open>
  C7. The two normalisation helpers return \<^verbatim>\<open>None\<close> when the request fails or answers
  with an error status, when the content type names none of the supported formats, when
  the content or the decoded bytes exceed 5 MiB, and when the data URL has no comma or
  the payload does not decode. \<^verbatim>\<open>analyze_image\<close> turns a \<^verbatim>\<open>None\<close> input, and every
  exception of its body, into the error envelope: \<^verbatim>\<open>success\<close> false and one fallback
  suggestion of confidence 0.0. The model of \<^verbatim>\<open>analyze_image\<close> has no exception result.
\<close>

theorem image_faults_become_error_envelope:
  "(http_get rt url = None \<longrightarrow> process_image_url rt url = None)
   \<and> (\<forall>r. http_get rt url = Some r
          \<and> (status_error r
             \<or> \<not> list_ex (\<lambda>f. sublist f (case content_type r of None \<Rightarrow> [] | Some c \<Rightarrow> c))
                    supported_formats
             \<or> 5 * 1024 * 1024 < length (content r))
          \<longrightarrow> process_image_url rt url = None)
   \<and> (\<forall>e. strip_data_url data = Inl e \<longrightarrow> process_base64_image rt data = None)
   \<and> (\<forall>p. strip_data_url data = Inr p \<and> b64decode rt p = None
          \<longrightarrow> process_base64_image rt data = None)
   \<and> (\<forall>p bs. strip_data_url data = Inr p \<and> b64decode rt p = Some bs
             \<and> 5 * 1024 * 1024 < length bs
          \<longrightarrow> process_base64_image rt data = None)
   \<and> (image_input_of rt image_data = Inr None \<longrightarrow>
         analyze_image rt image_data context =
           create_error_response ''Invalid image format or size'')
   \<and> (\<forall>e. analyze_image_try rt image_data context = Inl e \<longrightarrow>
         analyze_image rt image_data context =
           create_error_response (''Analysis failed: '' @ exn_str rt e))
   \<and> field ''success'' (create_error_response msg) = Some (JBool False)
   \<and> field ''alt_suggestions'' (create_error_response msg) =
       Some (JArr [JObj [(''type'', JStr ''fallback''),
                         (''text'', JStr ''Image description unavailable - please add manual alt text''),
                         (''length'', JInt 58),
                         (''confidence'', JFloat 0.0)]])"
  using process_image_url_fault [of rt url] process_image_url_rejects [of rt url]
    process_base64_image_split_fault [of data _ rt]
    process_base64_image_decode_fault [of data _ rt]
    process_base64_image_too_long [of data _ rt]
    analyze_image_no_input [of rt image_data "context"]
    analyze_image_caught [of rt image_data "context"]
    error_envelope [of msg]
  by blast

theorem image_faults_become_error_envelope_witness:
  "http_get example_runtime ''https://x/gone.png'' = None
   \<and> process_image_url example_runtime ''https://x/gone.png'' = None
   \<and> http_get example_runtime ''https://x/y.txt''
       = Some \<lparr>status_error = False, content_type = Some ''text/html'', content = [104, 105]\<rparr>
   \<and> \<not> list_ex (\<lambda>f. sublist f ''text/html'') supported_formats
   \<and> process_image_url example_runtime ''https://x/y.txt'' = None
   \<and> strip_data_url ''data:image/png;base64'' = Inl IndexError
   \<and> process_base64_image example_runtime ''data:image/png;base64'' = None
   \<and> strip_data_url ''data:image/png;base64,????'' = Inr ''????''
   \<and> b64decode example_runtime ''????'' = None
   \<and> process_base64_image example_runtime ''data:image/png;base64,????'' = None
   \<and> strip_data_url ''aGk='' = Inr ''aGk=''
   \<and> b64decode (example_runtime\<lparr>b64decode := \<lambda>s. Some (replicate 5242881 0)\<rparr>) ''aGk=''
       = Some (replicate 5242881 0)
   \<and> (5 * 1024 * 1024 :: nat) < length (replicate 5242881 (0 :: 8 word))
   \<and> process_base64_image (example_runtime\<lparr>b64decode := \<lambda>s. Some (replicate 5242881 0)\<rparr>)
        ''aGk='' = None
   \<and> image_input_of example_runtime (JStr ''https://x/y.txt'') = Inr None
   \<and> analyze_image example_runtime (JStr ''https://x/y.txt'') (JObj [])
       = create_error_response ''Invalid image format or size''
   \<and> analyze_image_try example_runtime (JInt 5) (JObj []) = Inl AttributeError
   \<and> analyze_image example_runtime (JInt 5) (JObj [])
       = create_error_response ''Analysis failed: exception''"
proof -
  have g: "http_get example_runtime ''https://x/gone.png'' = None"
    by (simp add: example_runtime_def)
  have t: "http_get example_runtime ''https://x/y.txt''
       = Some \<lparr>status_error = False, content_type = Some ''text/html'', content = [104, 105]\<rparr>"
    by (simp add: example_runtime_def)
  have f: "\<not> list_ex (\<lambda>f. sublist f ''text/html'') supported_formats"
    unfolding supported_formats_def by code_simp
  have s1: "strip_data_url ''data:image/png;base64'' = Inl IndexError"
    by (simp add: strip_data_url_def)
  have s2: "strip_data_url ''data:image/png;base64,????'' = Inr ''????''"
    by (simp add: strip_data_url_def)
  have d2: "b64decode example_runtime ''????'' = None"
    by (simp add: example_runtime_def)
  have s3: "strip_data_url ''aGk='' = Inr ''aGk=''"
    by (simp add: strip_data_url_def)
  have d3: "b64decode (example_runtime\<lparr>b64decode := \<lambda>s. Some (replicate 5242881 0)\<rparr>) ''aGk=''
       = Some (replicate 5242881 0)"
    by simp
  have l3: "(5 * 1024 * 1024 :: nat) < length (replicate 5242881 (0 :: 8 word))"
    by simp
  note u1 = image_faults_become_error_envelope
    [of example_runtime "''https://x/gone.png''" "''data:image/png;base64''"
        "JStr ''https://x/y.txt''" "JObj []" "[]"]
  note u2 = image_faults_become_error_envelope
    [of example_runtime "''https://x/y.txt''" "''data:image/png;base64,????''"
        "JInt 5" "JObj []" "[]"]
  note u3 = image_faults_become_error_envelope
    [of "example_runtime\<lparr>b64decode := \<lambda>s. Some (replicate 5242881 0)\<rparr>" "''https://x/y.txt''"
        "''aGk=''" "JInt 5" "JObj []" "[]"]
  have p1: "process_image_url example_runtime ''https://x/gone.png'' = None"
    using u1 g by blast
  have p2: "process_image_url example_runtime ''https://x/y.txt'' = None"
    using u2 t f by simp
  have i: "image_input_of example_runtime (JStr ''https://x/y.txt'') = Inr None"
    using p2 by (simp add: image_input_of_def)
  have a: "analyze_image_try example_runtime (JInt 5) (JObj []) = Inl AttributeError"
    by (simp add: analyze_image_try_def image_input_of_def)
  have e: "exn_str example_runtime AttributeError = ''exception''"
    by (simp add: example_runtime_def)
  have c1: "process_base64_image example_runtime ''data:image/png;base64'' = None"
    using u1 s1 by blast
  have c2: "process_base64_image example_runtime ''data:image/png;base64,????'' = None"
    using u2 s2 d2 by blast
  have c3: "process_base64_image (example_runtime\<lparr>b64decode := \<lambda>s. Some (replicate 5242881 0)\<rparr>)
        ''aGk='' = None"
    using u3 s3 d3 l3 by blast
  have c4: "analyze_image example_runtime (JStr ''https://x/y.txt'') (JObj [])
       = create_error_response ''Invalid image format or size''"
    using u1 i by blast
  have c5: "analyze_image example_runtime (JInt 5) (JObj [])
       = create_error_response ''Analysis failed: exception''"
    using u2 a e by simp
  from g p1 t f p2 s1 c1 s2 d2 c2 s3 d3 l3 c3 i c4 a c5 show ?thesis
    by (intro conjI)
qed

section \<open>The suggestion sets\<close>

lemma types_product:
  "map (field ''type'') (items product_suggestions) =
     [Some (JStr ''brief''), Some (JStr ''moderate''), Some (JStr ''detailed'')]"
  by (simp add: product_suggestions_def)

lemma types_generic:
  "map (field ''type'') (items generic_suggestions) =
     [Some (JStr ''brief''), Some (JStr ''moderate''), Some (JStr ''detailed'')]"
  by (simp add: generic_suggestions_def)

lemma types_rich:
  "map (field ''type'') (items rich_suggestions) =
     [Some (JStr ''brief''), Some (JStr ''moderate''), Some (JStr ''detailed'')]"
  by (simp add: rich_suggestions_def)

lemma analyze_image_outcomes:
  "(\<exists>msg. analyze_image rt image_data context = create_error_response msg)
   \<or> (\<exists>inp. analyze_image rt image_data context =
         JObj [(''success'', JBool True),
               (''alt_suggestions'', rich_suggestions),
               (''accessibility_analysis'',
                  JObj (analyze_accessibility_context (JStr inp) context)),
               (''context_used'', context)])"
  by (auto simp: analyze_image_def analyze_image_try_def generate_alt_text_options_def
           split: sum.splits option.splits if_splits)

lemma handle_call_tool_generate:
  "handle_call_tool rt ''generate_alt_text'' arguments =
     Inr [TextContent ''text'' (json_dumps rt
            (analyze_image rt (dict_get arguments ''image_data'' (JStr []))
                              (dict_get arguments ''context'' (JObj []))))]"
  by (simp add: handle_call_tool_def)

text \<open>
  C1, as amended. In the minimal server, when the context (an empty dictionary by default)
  is a dictionary and its \<^verbatim>\<open>page_title\<close> (the empty string by default) is a string,
  \<^verbatim>\<open>generate_alt_text\<close> returns the product set if the lower-cased title contains
  \<^verbatim>\<open>product\<close> or \<^verbatim>\<open>page_topic\<close> is \<^verbatim>\<open>ecommerce\<close>, and the generic set otherwise; each
  set has three suggestions of types brief, moderate, detailed. The full server's handler
  of the same name serialises \<^verbatim>\<open>analyze_image\<close>, which does not choose by the context: it
  returns the error envelope or its own set of three suggestions of the same types.
\<close>

theorem suggestion_set_selection:
  assumes "dict_get arguments ''context'' (JObj []) = JObj ctx"
      and "dict_get ctx ''page_title'' (JStr []) = JStr page_title"
  shows "(\<exists>result.
            generate_alt_text (JObj arguments) = Inr result
          \<and> field ''alt_suggestions'' result =
              Some (if sublist ''product'' (lower page_title)
                       \<or> dict_get ctx ''page_topic'' (JStr ''general'') = JStr ''ecommerce''
                    then product_suggestions else generic_suggestions))
       \<and> map (field ''type'') (items product_suggestions) =
           [Some (JStr ''brief''), Some (JStr ''moderate''), Some (JStr ''detailed'')]
       \<and> map (field ''type'') (items generic_suggestions) =
           [Some (JStr ''brief''), Some (JStr ''moderate''), Some (JStr ''detailed'')]
       \<and> handle_call_tool rt ''generate_alt_text'' full_arguments =
           Inr [TextContent ''text'' (json_dumps rt
                  (analyze_image rt (dict_get full_arguments ''image_data'' (JStr []))
                                    (dict_get full_arguments ''context'' (JObj []))))]
       \<and> ((\<exists>msg. analyze_image rt image_data context = create_error_response msg)
          \<or> field ''alt_suggestions'' (analyze_image rt image_data context)
               = Some rich_suggestions)
       \<and> map (field ''type'') (items rich_suggestions) =
           [Some (JStr ''brief''), Some (JStr ''moderate''), Some (JStr ''detailed'')]"
proof -
  have a: "\<exists>result.
            generate_alt_text (JObj arguments) = Inr result
          \<and> field ''alt_suggestions'' result =
              Some (if sublist ''product'' (lower page_title)
                       \<or> dict_get ctx ''page_topic'' (JStr ''general'') = JStr ''ecommerce''
                    then product_suggestions else generic_suggestions)"
    by (simp add: generate_alt_text_well_typed [OF assms])
  have b: "(\<exists>msg. analyze_image rt image_data context = create_error_response msg)
          \<or> field ''alt_suggestions'' (analyze_image rt image_data context)
               = Some rich_suggestions"
    using analyze_image_outcomes [of rt image_data "context"] by auto
  from a b show ?thesis
    by (simp only: types_product types_generic types_rich handle_call_tool_generate simp_thms)
qed

lemma lower_example: "lower ''Smartphone Product Page'' = ''smartphone product page''"
  by code_simp

lemma sublist_example: "sublist ''product'' ''smartphone product page''"
  by code_simp

theorem suggestion_set_selection_witness:
  "dict_get [(''image_data'', JStr ''https://example.com/product.jpg''),
             (''context'', JObj [(''page_title'', JStr ''Smartphone Product Page''),
                                 (''page_topic'', JStr ''testing'')])]
     ''context'' (JObj [])
     = JObj [(''page_title'', JStr ''Smartphone Product Page''), (''page_topic'', JStr ''testing'')]
   \<and> dict_get [(''page_title'', JStr ''Smartphone Product Page''), (''page_topic'', JStr ''testing'')]
        ''page_title'' (JStr []) = JStr ''Smartphone Product Page''
   \<and> (\<exists>result.
         generate_alt_text (JObj
           [(''image_data'', JStr ''https://example.com/product.jpg''),
            (''context'', JObj [(''page_title'', JStr ''Smartphone Product Page''),
                                (''page_topic'', JStr ''testing'')])]) = Inr result
       \<and> field ''alt_suggestions'' result = Some product_suggestions)"
proof -
  have h1: "dict_get [(''image_data'', JStr ''https://example.com/product.jpg''),
             (''context'', JObj [(''page_title'', JStr ''Smartphone Product Page''),
                                 (''page_topic'', JStr ''testing'')])]
     ''context'' (JObj [])
     = JObj [(''page_title'', JStr ''Smartphone Product Page''), (''page_topic'', JStr ''testing'')]"
    by (simp add: dict_get_def)
  have h2: "dict_get [(''page_title'', JStr ''Smartphone Product Page''), (''page_topic'', JStr ''testing'')]
        ''page_title'' (JStr []) = JStr ''Smartphone Product Page''"
    by (simp add: dict_get_def)
  show ?thesis
    using h1 h2 suggestion_set_selection [OF h1 h2, of example_runtime "[]" JNull JNull]
    by (simp add: lower_example sublist_example)
qed

text \<open>
  C1 as stated fails. In the full server a call with \<^verbatim>\<open>page_topic\<close> equal to \<^verbatim>\<open>ecommerce\<close>
  and an accepted image returns the full server's own suggestions, not the product set;
  in the minimal server a call whose \<^verbatim>\<open>page_title\<close> is \<^verbatim>\<open>null\<close> raises although
  \<^verbatim>\<open>page_topic\<close> is \<^verbatim>\<open>ecommerce\<close>.
\<close>

theorem suggestion_set_selection_counterexample:
  "handle_call_tool example_runtime ''generate_alt_text''
     [(''image_data'', JStr ''aGk=''), (''context'', JObj [(''page_topic'', JStr ''ecommerce'')])]
     = Inr [TextContent ''text'' (json_dumps example_runtime
         (JObj [(''success'', JBool True),
                (''alt_suggestions'', rich_suggestions),
                (''accessibility_analysis'',
                   JObj (analyze_accessibility_context (JStr ''aGk='')
                           (JObj [(''page_topic'', JStr ''ecommerce'')]))),
                (''context_used'', JObj [(''page_topic'', JStr ''ecommerce'')])]))]
   \<and> rich_suggestions \<noteq> product_suggestions
   \<and> generate_alt_text (JObj
        [(''context'', JObj [(''page_title'', JNull), (''page_topic'', JStr ''ecommerce'')])])
       = Inl AttributeError"
  by (simp add: handle_call_tool_def analyze_image_def analyze_image_try_def image_input_of_def
        process_base64_image_def process_base64_image_try_def strip_data_url_def example_runtime_def
        generate_alt_text_options_def build_context_prompt_def dict_get_def
        rich_suggestions_def product_suggestions_def generate_alt_text_def)

text \<open>
  C3 fails on the code: the \<^verbatim>\<open>length\<close> entries are literals, and most of them differ from
  the number of characters of the text beside them. The call below returns the product
  set, whose first suggestion says 35 for a text of 34 characters. Only the fallback
  suggestion of the error envelope and one entry of each set agree.
\<close>

theorem length_field_evaluated:
  "(\<exists>result. generate_alt_text (JObj [(''image_data'', JStr ''https://x/y.jpg''),
                                      (''context'', JObj [(''page_topic'', JStr ''ecommerce'')])])
                = Inr result
            \<and> field ''alt_suggestions'' result = Some product_suggestions)
   \<and> map (field ''length'') (items product_suggestions)
       = [Some (JInt 35), Some (JInt 65), Some (JInt 115)]
   \<and> map (\<lambda>s. case field ''text'' s of Some (JStr t) \<Rightarrow> int (length t) | _ \<Rightarrow> - 1)
          (items product_suggestions) = [34, 65, 109]
   \<and> map length_matches (items product_suggestions) = [False, True, False]
   \<and> map length_matches (items generic_suggestions) = [True, False, False]
   \<and> map length_matches (items rich_suggestions) = [True, False, False]
   \<and> map length_matches (items options_fallback) = [False]
   \<and> (case field ''alt_suggestions'' (create_error_response ''Invalid image format or size'') of
         Some v \<Rightarrow> map length_matches (items v) = [True]
       | None \<Rightarrow> False)"
  by (simp add: length_matches_def product_suggestions_def generic_suggestions_def
        rich_suggestions_def options_fallback_def create_error_response_def
        generate_alt_text_def dict_get_def lower_def)

end
